theory Spec2Isabelle
  imports Complex_Main
begin

section \<open>Directions, exceptions and the random source\<close>

text \<open>
  The agents of \<^verbatim>\<open>pacman/agents.py\<close>: the adapter agents that sit in the environment
  process and the controller agents that decide. Python exceptions are values of
  \<open>error\<close>; a method that may raise returns \<open>error + 'a\<close> with \<open>Inl\<close> the exception.
\<close>

datatype direction = NORTH | SOUTH | EAST | WEST | STOP

datatype error =
  ValueError | AttributeError | NotImplementedError | IndexError | KeyError
  | ZeroDivisionError

definition GHOST_ACTIONS :: "direction list" where
  "GHOST_ACTIONS = [NORTH, SOUTH, EAST, WEST]"

definition PACMAN_ACTIONS :: "direction list" where
  "PACMAN_ACTIONS = GHOST_ACTIONS @ [STOP]"

definition PACMAN_INDEX :: nat where
  "PACMAN_INDEX = 0"

text \<open>
  The generator of Python's \<^verbatim>\<open>random\<close> module is the sequence of raw samples it
  will hand out; drawing one sample moves to the rest of the sequence.
  \<^verbatim>\<open>random.randrange(start, stop)\<close> raises on an empty range and otherwise returns
  \<open>start + k\<close> for a \<open>k\<close> below the width; \<^verbatim>\<open>random.choice(seq)\<close> indexes the
  sequence and raises on an empty one.
\<close>

type_synonym rng = "nat \<Rightarrow> int"

definition rng_rest :: "rng \<Rightarrow> rng" where
  "rng_rest g = (\<lambda>n. g (Suc n))"

definition randrange :: "int \<Rightarrow> int \<Rightarrow> rng \<Rightarrow> error + (int \<times> rng)" where
  "randrange start stop g =
     (if stop - start > 0 then Inr (start + g 0 mod (stop - start), rng_rest g)
      else Inl ValueError)"

definition random_choice :: "nat \<Rightarrow> 'a list \<Rightarrow> error + 'a" where
  "random_choice u seq =
     (if seq = [] then Inl IndexError else Inr (seq ! (u mod length seq)))"

section \<open>Adapter agents\<close>

text \<open>What the adapter reads from the environment's game state.\<close>

record game_state =
  getPacmanPosition :: "int \<times> int"
  getGhostPositions :: "(int \<times> int) list"
  getFood :: "bool list list"
  getWalls :: "bool list list"
  scaredTimers :: "int list"
  getScore :: int
  getLegalActions :: "nat \<Rightarrow> direction list"

record state_message =
  msg_agent_id :: nat
  agent_positions :: "nat \<rightharpoonup> int \<times> int"
  food_positions :: "(nat \<times> nat) list"
  fragile_agents :: "nat \<rightharpoonup> real"
  wall_positions :: "(nat \<times> nat) list"
  legal_actions :: "direction list"
  reward :: int
  executed_action :: direction
  msg_test_mode :: bool

datatype adapter_class = AdapterAgent | PacmanAdapterAgent | GhostAdapterAgent

text \<open>The object given as \<^verbatim>\<open>client\<close>: an instance of \<^verbatim>\<open>ZMQMessengerBase\<close> or not.\<close>

datatype client_object = ZMQMessengerBase_instance | Other_object

text \<open>
  The attributes of an adapter agent. \<^verbatim>\<open>previous_score\<close> and \<^verbatim>\<open>invalid_action\<close> are
  not set by the constructor: \<open>None\<close> is the missing attribute.
\<close>

record adapter =
  cls :: adapter_class
  agent_id :: nat
  client :: client_object
  previous_action :: direction
  test_mode :: bool
  previous_score :: "int option"
  invalid_action :: "bool option"

definition AdapterAgent_init :: "adapter_class \<Rightarrow> nat \<Rightarrow> client_object \<Rightarrow> error + adapter" where
  "AdapterAgent_init c aid cl =
     (if cl \<noteq> ZMQMessengerBase_instance then Inl ValueError
      else Inr \<lparr>cls = c, agent_id = aid, client = cl, previous_action = STOP,
                test_mode = False, previous_score = None, invalid_action = None\<rparr>)"

definition PacmanAdapterAgent_init :: "client_object \<Rightarrow> error + adapter" where
  "PacmanAdapterAgent_init cl = AdapterAgent_init PacmanAdapterAgent PACMAN_INDEX cl"

definition GhostAdapterAgent_init :: "nat \<Rightarrow> client_object \<Rightarrow> error + adapter" where
  "GhostAdapterAgent_init aid cl =
     (case AdapterAgent_init GhostAdapterAgent aid cl of
        Inl e \<Rightarrow> Inl e
      | Inr a \<Rightarrow> Inr (a\<lparr>previous_action := NORTH\<rparr>))"

text \<open>\<^verbatim>\<open>__noise_error__\<close>, with the module's global \<^verbatim>\<open>NOISE\<close> as \<open>B\<close>.\<close>

definition noise_error :: "int \<Rightarrow> rng \<Rightarrow> error + (int \<times> rng)" where
  "noise_error B g = randrange (- B) (B + 1) g"

definition calculate_reward :: "adapter \<Rightarrow> int \<Rightarrow> error + int" where
  "calculate_reward a current_score =
     (case cls a of
        AdapterAgent \<Rightarrow> Inl NotImplementedError
      | PacmanAdapterAgent \<Rightarrow>
          (case previous_score a of
             None \<Rightarrow> Inl AttributeError
           | Some p \<Rightarrow> Inr (current_score - p))
      | GhostAdapterAgent \<Rightarrow>
          (case previous_score a of
             None \<Rightarrow> Inl AttributeError
           | Some p \<Rightarrow> Inr (p - current_score)))"

text \<open>
  The peer behind the client: what it replies to a state message
  (\<^verbatim>\<open>client.send(msg)\<close>, then \<^verbatim>\<open>client.receive()\<close>, of which only \<^verbatim>\<open>.action\<close> is read).
\<close>

definition communicate :: "(state_message \<Rightarrow> direction) \<Rightarrow> state_message \<Rightarrow> direction" where
  "communicate peer msg = peer msg"

text \<open>
  The loop over \<^verbatim>\<open>enumerate(state.getGhostPositions())\<close>: two draws of noise for each
  ghost, the first for the row, and the entry stored swapped under index + 1.
\<close>

fun ghost_positions_loop ::
  "int \<Rightarrow> nat \<Rightarrow> (int \<times> int) list \<Rightarrow> (nat \<rightharpoonup> int \<times> int) \<Rightarrow> rng
     \<Rightarrow> error + ((nat \<rightharpoonup> int \<times> int) \<times> rng)" where
  "ghost_positions_loop B ix [] m g = Inr (m, g)"
| "ghost_positions_loop B ix (pos # rest) m g =
     (case noise_error B g of
        Inl e \<Rightarrow> Inl e
      | Inr (n1, g1) \<Rightarrow>
          (case noise_error B g1 of
             Inl e \<Rightarrow> Inl e
           | Inr (n2, g2) \<Rightarrow>
               ghost_positions_loop B (Suc ix) rest
                 (m(ix + 1 \<mapsto> (snd pos + n1, fst pos + n2))) g2))"

text \<open>The two nested loops over the food grid and over the wall grid.\<close>

definition grid_positions :: "bool list list \<Rightarrow> (nat \<times> nat) list" where
  "grid_positions grid =
     concat (map (\<lambda>(x, row). map (\<lambda>(y, c). (y, x)) (filter snd (enumerate 0 row)))
                 (enumerate 0 grid))"

definition fragile_of :: "int list \<Rightarrow> (nat \<rightharpoonup> real)" where
  "fragile_of timers =
     map_of (map (\<lambda>(ix, t). (ix, if t > 0 then 1 else 0)) (enumerate 0 timers))"

definition create_state_message ::
  "int \<Rightarrow> adapter \<Rightarrow> game_state \<Rightarrow> rng \<Rightarrow> error + (state_message \<times> adapter \<times> rng)" where
  "create_state_message B a st g =
     (case ghost_positions_loop B 0 (getGhostPositions st)
             (Map.empty(PACMAN_INDEX \<mapsto> prod.swap (getPacmanPosition st))) g of
        Inl e \<Rightarrow> Inl e
      | Inr (positions, g') \<Rightarrow>
          (case calculate_reward a (getScore st) of
             Inl e \<Rightarrow> Inl e
           | Inr r \<Rightarrow>
               Inr (\<lparr>msg_agent_id = agent_id a,
                     agent_positions = positions,
                     food_positions = grid_positions (getFood st),
                     fragile_agents = fragile_of (scaredTimers st),
                     wall_positions = grid_positions (getWalls st),
                     legal_actions = getLegalActions st (agent_id a),
                     reward = r,
                     executed_action = previous_action a,
                     msg_test_mode = test_mode a\<rparr>,
                    a\<lparr>previous_score := Some (getScore st)\<rparr>, g')))"

definition enable_learn_mode :: "adapter \<Rightarrow> adapter" where
  "enable_learn_mode a = a\<lparr>test_mode := False\<rparr>"

definition enable_test_mode :: "adapter \<Rightarrow> adapter" where
  "enable_test_mode a = a\<lparr>test_mode := True\<rparr>"

text \<open>
  \<^verbatim>\<open>self.act_when_invalid(state)\<close>: only \<^verbatim>\<open>PacmanAdapterAgent\<close> defines the method
  (the one of \<^verbatim>\<open>GhostAdapterAgent\<close> is commented out), so for the other classes the
  lookup goes on to the base class \<^verbatim>\<open>berkeley.game.Agent\<close>. \<open>inherited\<close> is the method
  found there, \<open>None\<close> when that class has none.
\<close>

definition act_when_invalid ::
  "(game_state \<Rightarrow> direction) option \<Rightarrow> adapter \<Rightarrow> game_state \<Rightarrow> error + direction" where
  "act_when_invalid inherited a st =
     (case cls a of
        PacmanAdapterAgent \<Rightarrow> Inr STOP
      | _ \<Rightarrow> (case inherited of None \<Rightarrow> Inl AttributeError | Some f \<Rightarrow> Inr (f st)))"

definition getAction ::
  "(game_state \<Rightarrow> direction) option \<Rightarrow> int \<Rightarrow> (state_message \<Rightarrow> direction) \<Rightarrow> adapter
     \<Rightarrow> game_state \<Rightarrow> rng \<Rightarrow> error + (direction \<times> adapter \<times> rng)" where
  "getAction inherited B peer a st g =
     (case create_state_message B a st g of
        Inl e \<Rightarrow> Inl e
      | Inr (msg, a1, g1) \<Rightarrow>
          (let reply_action = communicate peer msg;
               a2 = a1\<lparr>previous_action := reply_action\<rparr>
           in if reply_action \<notin> set (getLegalActions st (agent_id a2)) then
                (let a3 = a2\<lparr>invalid_action := Some True\<rparr>
                 in case act_when_invalid inherited a3 st of
                      Inl e \<Rightarrow> Inl e
                    | Inr d \<Rightarrow> Inr (d, a3, g1))
              else Inr (reply_action, a2\<lparr>invalid_action := Some False\<rparr>, g1)))"

text \<open>\<^verbatim>\<open>start_game\<close>: the bookkeeping; the reply to the handshake is not read.\<close>

definition start_game :: "adapter \<Rightarrow> adapter" where
  "start_game a = a\<lparr>previous_score := Some 0, previous_action := STOP\<rparr>"

definition update ::
  "int \<Rightarrow> (state_message \<Rightarrow> direction) \<Rightarrow> adapter \<Rightarrow> game_state \<Rightarrow> rng
     \<Rightarrow> error + (adapter \<times> rng)" where
  "update B peer a st g =
     (case create_state_message B a st g of
        Inl e \<Rightarrow> Inl e
      | Inr (msg, a1, g1) \<Rightarrow> (let reply = communicate peer msg in Inr (a1, g1)))"

section \<open>Controller agents\<close>

text \<open>
  The state a controller agent is given: its \<^verbatim>\<open>iteration\<close> attribute and the rest of
  what it perceives, which only the behaviors and the learning algorithm read.
\<close>

record 's controller_state =
  iteration :: int
  percept :: 's

definition RandomPacmanAgent_choose_action ::
  "nat \<Rightarrow> 's controller_state \<Rightarrow> direction \<Rightarrow> int \<Rightarrow> direction list \<Rightarrow> bool
     \<Rightarrow> error + direction option" where
  "RandomPacmanAgent_choose_action u state action rew legal explore =
     (if length legal > 0 then
        (case random_choice u legal of Inl e \<Rightarrow> Inl e | Inr d \<Rightarrow> Inr (Some d))
      else Inr None)"

definition RandomGhostAgent_choose_action ::
  "nat \<Rightarrow> 's controller_state \<Rightarrow> direction \<Rightarrow> int \<Rightarrow> direction list \<Rightarrow> bool
     \<Rightarrow> error + direction option" where
  "RandomGhostAgent_choose_action u state action rew legal explore =
     (if length legal > 0 then
        (case random_choice u legal of Inl e \<Rightarrow> Inl e | Inr d \<Rightarrow> Inr (Some d))
      else Inr None)"

text \<open>
  \<^verbatim>\<open>EaterPacmanAgent.choose_action\<close>; \<open>eat_behavior\<close> is the agent's
  \<^verbatim>\<open>behaviors.EatBehavior()\<close>, called on the state and the legal actions.
\<close>

definition EaterPacmanAgent_choose_action ::
  "('s controller_state \<Rightarrow> direction list \<Rightarrow> direction) \<Rightarrow> nat \<Rightarrow> 's controller_state
     \<Rightarrow> direction \<Rightarrow> int \<Rightarrow> direction list \<Rightarrow> bool \<Rightarrow> error + direction" where
  "EaterPacmanAgent_choose_action eat_behavior u state action rew legal test =
     (let suggested_action = eat_behavior state legal
      in if suggested_action \<in> set legal then Inr suggested_action
         else if legal = [] then Inr STOP
         else random_choice u legal)"

datatype behavior = EatBehavior | FleeBehavior | SeekBehavior | PursueBehavior

datatype feature = FoodDistanceFeature | EnemyDistanceFeature nat | FragileAgentFeature nat

text \<open>
  The \<^verbatim>\<open>learning.QLearningWithApproximation\<close> object of an agent: the rates it is
  constructed with, two of which the agent assigns later, and its weights. Its methods
  \<^verbatim>\<open>learn\<close> and \<^verbatim>\<open>act\<close> are parameters of \<^verbatim>\<open>choose_action\<close> below: \<open>learn core state behavior reward\<close> is the object after
  the call, \<open>act core state\<close> the behavior returned and the object after the call.
\<close>

record 'w learning_core =
  learning_rate :: real
  discount_factor :: real
  exploration_rate :: real
  weights :: 'w

text \<open>
  A behavior learning agent. \<^verbatim>\<open>behavior_count\<close> is keyed by \<^verbatim>\<open>str(behavior)\<close>, here by
  the behavior itself.
\<close>

record 'w learning_agent =
  la_agent_id :: nat
  actions :: "direction list"
  features :: "feature list"
  behaviors :: "behavior list"
  K :: real
  la_exploration_rate :: real
  learning :: "'w learning_core"
  previous_behavior :: behavior
  behavior_count :: "behavior \<rightharpoonup> nat"
  la_test_mode :: bool

definition features_of :: "nat \<Rightarrow> nat list \<Rightarrow> nat list \<Rightarrow> feature list" where
  "features_of aid ally_ids enemy_ids =
     [FoodDistanceFeature] @ map EnemyDistanceFeature enemy_ids
       @ map FragileAgentFeature ([aid] @ ally_ids @ enemy_ids)"

definition reset_behavior_count :: "'w learning_agent \<Rightarrow> 'w learning_agent" where
  "reset_behavior_count ag =
     ag\<lparr>behavior_count :=
          fold (\<lambda>b m. m(b \<mapsto> 0)) (behaviors ag) (behavior_count ag)\<rparr>"

text \<open>The constructors; \<open>w0\<close> is the weights the new learning object starts with.\<close>

definition BehaviorLearningPacmanAgent_init ::
  "'w \<Rightarrow> nat \<Rightarrow> nat list \<Rightarrow> nat list \<Rightarrow> 'w learning_agent" where
  "BehaviorLearningPacmanAgent_init w0 aid ally_ids enemy_ids =
     reset_behavior_count
       \<lparr>la_agent_id = aid, actions = PACMAN_ACTIONS,
        features = features_of aid ally_ids enemy_ids,
        behaviors = [EatBehavior, FleeBehavior, SeekBehavior, PursueBehavior],
        K = 1, la_exploration_rate = 1 / 10,
        learning = \<lparr>learning_rate = 1 / 10, discount_factor = 9 / 10,
                    exploration_rate = 1 / 10, weights = w0\<rparr>,
        previous_behavior = EatBehavior, behavior_count = Map.empty,
        la_test_mode = False\<rparr>"

definition BehaviorLearningGhostAgent_init ::
  "'w \<Rightarrow> nat \<Rightarrow> nat list \<Rightarrow> nat list \<Rightarrow> 'w learning_agent" where
  "BehaviorLearningGhostAgent_init w0 aid ally_ids enemy_ids =
     reset_behavior_count
       \<lparr>la_agent_id = aid, actions = GHOST_ACTIONS,
        features = features_of aid ally_ids enemy_ids,
        behaviors = [FleeBehavior, SeekBehavior, PursueBehavior],
        K = 1, la_exploration_rate = 1 / 10,
        learning = \<lparr>learning_rate = 1 / 10, discount_factor = 9 / 10,
                    exploration_rate = 1 / 10, weights = w0\<rparr>,
        previous_behavior = FleeBehavior, behavior_count = Map.empty,
        la_test_mode = False\<rparr>"

definition la_enable_learn_mode :: "'w learning_agent \<Rightarrow> 'w learning_agent" where
  "la_enable_learn_mode ag =
     ag\<lparr>la_test_mode := False,
        learning := (learning ag)\<lparr>exploration_rate := la_exploration_rate ag\<rparr>\<rparr>"

definition la_enable_test_mode :: "'w learning_agent \<Rightarrow> 'w learning_agent" where
  "la_enable_test_mode ag =
     ag\<lparr>la_test_mode := True, learning := (learning ag)\<lparr>exploration_rate := 0\<rparr>\<rparr>"

text \<open>
  \<^verbatim>\<open>BehaviorLearningPacmanAgent.choose_action\<close>. \<open>run b state legal\<close> is the call
  \<^verbatim>\<open>behavior(state, legal_actions)\<close> of behavior \<open>b\<close>. The division is Python's float
  division, which raises on a zero divisor, taken over the reals.
\<close>

definition BehaviorLearningPacmanAgent_choose_action ::
  "('w learning_core \<Rightarrow> 's controller_state \<Rightarrow> behavior \<Rightarrow> int \<Rightarrow> 'w learning_core)
     \<Rightarrow> ('w learning_core \<Rightarrow> 's controller_state \<Rightarrow> behavior \<times> 'w learning_core)
     \<Rightarrow> (behavior \<Rightarrow> 's controller_state \<Rightarrow> direction list \<Rightarrow> direction)
     \<Rightarrow> nat \<Rightarrow> 'w learning_agent \<Rightarrow> 's controller_state \<Rightarrow> direction \<Rightarrow> int
     \<Rightarrow> direction list \<Rightarrow> bool \<Rightarrow> error + (direction \<times> 'w learning_agent)" where
  "BehaviorLearningPacmanAgent_choose_action learn act run u ag state action rew legal test =
     (let ag1 = (if test then la_enable_test_mode ag else la_enable_learn_mode ag)
      in case (if \<not> la_test_mode ag1 then
                 (if K ag1 + of_int (iteration state) = 0 then Inl ZeroDivisionError
                  else Inr (ag1\<lparr>learning :=
                         learn ((learning ag1)\<lparr>learning_rate :=
                                   K ag1 / (K ag1 + of_int (iteration state))\<rparr>)
                               state (previous_behavior ag1) rew\<rparr>))
               else Inr ag1) of
           Inl e \<Rightarrow> Inl e
         | Inr ag2 \<Rightarrow>
             (let (b, core) = act (learning ag2) state;
                  ag3 = ag2\<lparr>learning := core, previous_behavior := b\<rparr>;
                  suggested_action = run b state legal
              in case behavior_count ag3 b of
                   None \<Rightarrow> Inl KeyError
                 | Some n \<Rightarrow>
                     (let ag4 = ag3\<lparr>behavior_count := (behavior_count ag3)(b \<mapsto> n + 1)\<rparr>
                      in if suggested_action \<in> set legal then Inr (suggested_action, ag4)
                         else if legal = [] then Inr (STOP, ag4)
                         else (case random_choice u legal of
                                 Inl e \<Rightarrow> Inl e
                               | Inr d \<Rightarrow> Inr (d, ag4)))))"

text \<open>\<^verbatim>\<open>BehaviorLearningGhostAgent.choose_action\<close>, the same statements.\<close>

definition BehaviorLearningGhostAgent_choose_action ::
  "('w learning_core \<Rightarrow> 's controller_state \<Rightarrow> behavior \<Rightarrow> int \<Rightarrow> 'w learning_core)
     \<Rightarrow> ('w learning_core \<Rightarrow> 's controller_state \<Rightarrow> behavior \<times> 'w learning_core)
     \<Rightarrow> (behavior \<Rightarrow> 's controller_state \<Rightarrow> direction list \<Rightarrow> direction)
     \<Rightarrow> nat \<Rightarrow> 'w learning_agent \<Rightarrow> 's controller_state \<Rightarrow> direction \<Rightarrow> int
     \<Rightarrow> direction list \<Rightarrow> bool \<Rightarrow> error + (direction \<times> 'w learning_agent)" where
  "BehaviorLearningGhostAgent_choose_action learn act run u ag state action rew legal test =
     (let ag1 = (if test then la_enable_test_mode ag else la_enable_learn_mode ag)
      in case (if \<not> la_test_mode ag1 then
                 (if K ag1 + of_int (iteration state) = 0 then Inl ZeroDivisionError
                  else Inr (ag1\<lparr>learning :=
                         learn ((learning ag1)\<lparr>learning_rate :=
                                   K ag1 / (K ag1 + of_int (iteration state))\<rparr>)
                               state (previous_behavior ag1) rew\<rparr>))
               else Inr ag1) of
           Inl e \<Rightarrow> Inl e
         | Inr ag2 \<Rightarrow>
             (let (b, core) = act (learning ag2) state;
                  ag3 = ag2\<lparr>learning := core, previous_behavior := b\<rparr>;
                  suggested_action = run b state legal
              in case behavior_count ag3 b of
                   None \<Rightarrow> Inl KeyError
                 | Some n \<Rightarrow>
                     (let ag4 = ag3\<lparr>behavior_count := (behavior_count ag3)(b \<mapsto> n + 1)\<rparr>
                      in if suggested_action \<in> set legal then Inr (suggested_action, ag4)
                         else if legal = [] then Inr (STOP, ag4)
                         else (case random_choice u legal of
                                 Inl e \<Rightarrow> Inl e
                               | Inr d \<Rightarrow> Inr (d, ag4)))))"

section \<open>Concrete inputs\<close>

text \<open>
  A board with the hunted agent at (1, 1), one hunter at (3, 1), score 10, and NORTH the
  only legal action of every agent.
\<close>

definition example_state :: game_state where
  "example_state =
     \<lparr>getPacmanPosition = (1, 1), getGhostPositions = [(3, 1)],
      getFood = [[False, False], [False, True]],
      getWalls = [[True, False], [False, False]],
      scaredTimers = [0, 5], getScore = 10,
      getLegalActions = (\<lambda>i. [NORTH])\<rparr>"

text \<open>A hunted-role and a hunter-role adapter whose last recorded score is 6.\<close>

definition hunted6 :: adapter where
  "hunted6 =
     \<lparr>cls = PacmanAdapterAgent, agent_id = 0, client = ZMQMessengerBase_instance,
      previous_action = STOP, test_mode = False, previous_score = Some 6,
      invalid_action = None\<rparr>"

definition hunter6 :: adapter where
  "hunter6 =
     \<lparr>cls = GhostAdapterAgent, agent_id = 1, client = ZMQMessengerBase_instance,
      previous_action = STOP, test_mode = False, previous_score = Some 6,
      invalid_action = None\<rparr>"

text \<open>A generator whose samples are all 0, and one whose samples are all 2.\<close>

definition zeros :: rng where
  "zeros = (\<lambda>n. 0)"

definition twos :: rng where
  "twos = (\<lambda>n. 2)"

text \<open>
  A controller state at iteration 9, a learning object whose methods leave it as it is
  (\<open>act\<close> always choosing \<^verbatim>\<open>SeekBehavior\<close>), and a behavior that always suggests EAST.
\<close>

definition state9 :: "unit controller_state" where
  "state9 = \<lparr>iteration = 9, percept = ()\<rparr>"

definition learn_nothing ::
  "unit learning_core \<Rightarrow> unit controller_state \<Rightarrow> behavior \<Rightarrow> int \<Rightarrow> unit learning_core" where
  "learn_nothing c s b r = c"

definition act_seek ::
  "unit learning_core \<Rightarrow> unit controller_state \<Rightarrow> behavior \<times> unit learning_core" where
  "act_seek c s = (SeekBehavior, c)"

definition suggest_east ::
  "behavior \<Rightarrow> unit controller_state \<Rightarrow> direction list \<Rightarrow> direction" where
  "suggest_east b s legal = EAST"

definition pacman_learner :: "unit learning_agent" where
  "pacman_learner = BehaviorLearningPacmanAgent_init () 0 [] [1]"

definition ghost_learner :: "unit learning_agent" where
  "ghost_learner = BehaviorLearningGhostAgent_init () 1 [] [0]"

section \<open>Properties of the adapter agents\<close>

subsection \<open>Helper facts\<close>

lemma create_state_message_bookkeeping:
  assumes "create_state_message B a st g = Inr (msg, a1, g1)"
  shows "a1 = a\<lparr>previous_score := Some (getScore st)\<rparr>"
    and "executed_action msg = previous_action a"
  using assms
  by (auto simp add: create_state_message_def split: sum.splits prod.splits)

lemma noise_error_bounds:
  assumes "0 \<le> B"
  shows "\<exists>n g'. noise_error B g = Inr (n, g') \<and> - B \<le> n \<and> n \<le> B"
proof -
  have w: "B + 1 - (- B) > 0" using assms by simp
  have "0 \<le> g 0 mod (B + 1 - (- B))" using w by (rule pos_mod_sign)
  moreover have "g 0 mod (B + 1 - (- B)) < B + 1 - (- B)" using w by (rule pos_mod_bound)
  ultimately show ?thesis using w by (simp add: noise_error_def randrange_def)
qed

lemma ghost_positions_loop_keeps:
  "ghost_positions_loop B ix ps m g = Inr (m', g') \<Longrightarrow> j \<le> ix \<Longrightarrow> m' j = m j"
proof (induction ps arbitrary: ix m g)
  case Nil
  then show ?case by simp
next
  case (Cons pos rest)
  from Cons.prems(1) obtain n1 n2 g2 where
    rec: "ghost_positions_loop B (Suc ix) rest
            (m(ix + 1 \<mapsto> (snd pos + n1, fst pos + n2))) g2 = Inr (m', g')"
    by (auto split: sum.splits prod.splits)
  from Cons.IH [OF rec] Cons.prems(2) show ?case by simp
qed

lemma ghost_positions_loop_bounds:
  assumes "0 \<le> B"
  shows "\<exists>m' g'. ghost_positions_loop B ix ps m g = Inr (m', g')
           \<and> (\<forall>i<length ps. \<exists>y x. m' (ix + 1 + i) = Some (y, x)
                  \<and> snd (ps ! i) - B \<le> y \<and> y \<le> snd (ps ! i) + B
                  \<and> fst (ps ! i) - B \<le> x \<and> x \<le> fst (ps ! i) + B)"
proof (induction ps arbitrary: ix m g)
  case Nil
  show ?case by simp
next
  case (Cons pos rest)
  obtain n1 g1 where n1: "noise_error B g = Inr (n1, g1)" "- B \<le> n1" "n1 \<le> B"
    using noise_error_bounds [OF assms, of g] by blast
  obtain n2 g2 where n2: "noise_error B g1 = Inr (n2, g2)" "- B \<le> n2" "n2 \<le> B"
    using noise_error_bounds [OF assms, of g1] by blast
  let ?m1 = "m(ix + 1 \<mapsto> (snd pos + n1, fst pos + n2))"
  obtain m' g' where
    rec: "ghost_positions_loop B (Suc ix) rest ?m1 g2 = Inr (m', g')"
    and rest: "\<forall>i<length rest. \<exists>y x. m' (Suc ix + 1 + i) = Some (y, x)
                  \<and> snd (rest ! i) - B \<le> y \<and> y \<le> snd (rest ! i) + B
                  \<and> fst (rest ! i) - B \<le> x \<and> x \<le> fst (rest ! i) + B"
    using Cons.IH [of "Suc ix" ?m1 g2] by blast
  have here: "m' (ix + 1) = Some (snd pos + n1, fst pos + n2)"
    using ghost_positions_loop_keeps [OF rec, of "ix + 1"] by simp
  have run: "ghost_positions_loop B ix (pos # rest) m g = Inr (m', g')"
    using n1(1) n2(1) rec by simp
  have "\<exists>y x. m' (ix + 1 + i) = Some (y, x)
                  \<and> snd ((pos # rest) ! i) - B \<le> y \<and> y \<le> snd ((pos # rest) ! i) + B
                  \<and> fst ((pos # rest) ! i) - B \<le> x \<and> x \<le> fst ((pos # rest) ! i) + B"
    if "i < length (pos # rest)" for i
  proof (cases i)
    case 0
    then show ?thesis using here n1 n2 by simp
  next
    case (Suc k)
    then have "k < length rest" using that by simp
    then show ?thesis using rest Suc by simp
  qed
  then show ?case using run by blast
qed

text \<open>
  The hunted-role adapter on a reply that is not legal: the fallback of
  \<^verbatim>\<open>PacmanAdapterAgent.act_when_invalid\<close> is returned.
\<close>

lemma hunted_getAction_illegal_reply:
  assumes "cls a = PacmanAdapterAgent"
      and "create_state_message B a st g = Inr (msg, a1, g1)"
      and "peer msg \<notin> set (getLegalActions st (agent_id a))"
  shows "\<exists>a'. getAction inherited B peer a st g = Inr (STOP, a', g1)"
  using assms create_state_message_bookkeeping(1) [OF assms(2)]
  by (simp add: getAction_def communicate_def act_when_invalid_def Let_def)

text \<open>
  After a reply that is legal, the next state message carries the action that was
  returned to the environment.
\<close>

lemma executed_action_after_legal_reply:
  assumes "getAction inherited B peer a st g = Inr (d, a', g')"
      and "invalid_action a' = Some False"
      and "create_state_message B' a' st' g' = Inr (msg, a'', g'')"
  shows "executed_action msg = d"
proof -
  from assms(1,2) have "previous_action a' = d"
    by (auto simp add: getAction_def communicate_def Let_def
          split: sum.splits prod.splits if_splits)
  with create_state_message_bookkeeping(2) [OF assms(3)] show ?thesis by simp
qed

subsection \<open>Claims\<close>

text \<open>
  C1. When the reply names an action that is not legal, \<^verbatim>\<open>getAction\<close> is to return a
  fallback action, STOP by default, for the hunted role and the hunter role alike. On the
  example board, with the peer replying EAST where only NORTH is legal, the hunter-role
  adapter (whose class and base classes define no \<^verbatim>\<open>act_when_invalid\<close>) raises
  \<^verbatim>\<open>AttributeError\<close>, while the hunted-role adapter returns STOP.
\<close>

theorem hunter_getAction_illegal_reply_raises:
  "(case GhostAdapterAgent_init 1 ZMQMessengerBase_instance of
      Inl e \<Rightarrow> False
    | Inr a \<Rightarrow>
        getAction None 0 (\<lambda>msg. EAST) (start_game a) example_state zeros
          = Inl AttributeError)
   \<and> (case PacmanAdapterAgent_init ZMQMessengerBase_instance of
      Inl e \<Rightarrow> False
    | Inr a \<Rightarrow>
        (case getAction None 0 (\<lambda>msg. EAST) (start_game a) example_state zeros of
           Inl e \<Rightarrow> False
         | Inr (d, a', g') \<Rightarrow> d = STOP))"
  by (simp add: GhostAdapterAgent_init_def PacmanAdapterAgent_init_def AdapterAgent_init_def
        start_game_def getAction_def create_state_message_def calculate_reward_def
        noise_error_def randrange_def communicate_def act_when_invalid_def example_state_def
        zeros_def PACMAN_INDEX_def Let_def)

text \<open>
  C2. The \<^verbatim>\<open>executed_action\<close> of the next state message is to be the action applied
  to the environment in the previous step. On the example board, with the peer replying
  EAST where only NORTH is legal, the hunted-role adapter returns STOP to the environment,
  and the state message it builds next carries EAST as \<^verbatim>\<open>executed_action\<close>.
\<close>

theorem executed_action_after_fallback:
  "(case PacmanAdapterAgent_init ZMQMessengerBase_instance of
      Inl e \<Rightarrow> False
    | Inr a \<Rightarrow>
        (case getAction None 0 (\<lambda>msg. EAST) (start_game a) example_state zeros of
           Inl e \<Rightarrow> False
         | Inr (d, a', g') \<Rightarrow>
             d = STOP
             \<and> (case create_state_message 0 a' example_state g' of
                  Inl e \<Rightarrow> False
                | Inr (msg, a'', g'') \<Rightarrow> executed_action msg = EAST)))"
  by (simp add: PacmanAdapterAgent_init_def AdapterAgent_init_def
        start_game_def getAction_def create_state_message_def calculate_reward_def
        noise_error_def randrange_def communicate_def act_when_invalid_def example_state_def
        zeros_def rng_rest_def PACMAN_INDEX_def Let_def)

text \<open>
  C4. With a previously recorded score \<open>p\<close>, \<^verbatim>\<open>calculate_reward\<close> of the current score
  \<open>c\<close> is \<open>c - p\<close> for the hunted-role adapter and \<open>p - c\<close> for the hunter-role adapter.
\<close>

theorem calculate_reward_roles:
  assumes "previous_score a = Some p"
  shows "(cls a = PacmanAdapterAgent \<longrightarrow> calculate_reward a c = Inr (c - p))
       \<and> (cls a = GhostAdapterAgent \<longrightarrow> calculate_reward a c = Inr (p - c))"
  using assms by (simp add: calculate_reward_def)

text \<open>Recorded score 6 and current score 10: reward 4 for the hunted, -4 for a hunter.\<close>

theorem calculate_reward_roles_witness:
  "previous_score hunted6 = Some 6 \<and> previous_score hunter6 = Some 6
   \<and> calculate_reward hunted6 10 = Inr 4
   \<and> calculate_reward hunter6 10 = Inr (- 4)"
  using calculate_reward_roles [of hunted6 6 10] calculate_reward_roles [of hunter6 6 10]
  by (simp add: hunted6_def hunter6_def)

text \<open>
  C5. The hunted agent's own position is encoded swapped and without noise, whatever the
  noise bound. With a noise bound \<open>B \<ge> 0\<close> (and a role and a recorded score, so that the
  reward can be computed) the state message is built, and each coordinate of each
  opponent's encoded position is within \<open>B\<close> of the true coordinate; with \<open>B = 0\<close> it is
  the true coordinate.
\<close>

theorem opponent_noise_bounded:
  "(\<forall>msg a' g'. create_state_message B a st g = Inr (msg, a', g') \<longrightarrow>
       agent_positions msg PACMAN_INDEX = Some (prod.swap (getPacmanPosition st)))
   \<and> (0 \<le> B \<and> cls a \<noteq> AdapterAgent \<and> previous_score a \<noteq> None \<longrightarrow>
       (\<exists>msg a' g'. create_state_message B a st g = Inr (msg, a', g')
           \<and> (\<forall>i<length (getGhostPositions st). \<exists>y x.
                  agent_positions msg (i + 1) = Some (y, x)
                  \<and> snd (getGhostPositions st ! i) - B \<le> y
                  \<and> y \<le> snd (getGhostPositions st ! i) + B
                  \<and> fst (getGhostPositions st ! i) - B \<le> x
                  \<and> x \<le> fst (getGhostPositions st ! i) + B
                  \<and> (B = 0 \<longrightarrow> (y, x) = prod.swap (getGhostPositions st ! i)))))"
proof (intro conjI allI impI)
  fix msg a' g'
  assume ok: "create_state_message B a st g = Inr (msg, a', g')"
  let ?m0 = "Map.empty(PACMAN_INDEX \<mapsto> prod.swap (getPacmanPosition st))"
  from ok obtain g2 where
    "ghost_positions_loop B 0 (getGhostPositions st) ?m0 g = Inr (agent_positions msg, g2)"
    by (auto simp add: create_state_message_def split: sum.splits prod.splits)
  from ghost_positions_loop_keeps [OF this, of PACMAN_INDEX]
  show "agent_positions msg PACMAN_INDEX = Some (prod.swap (getPacmanPosition st))"
    by (simp add: PACMAN_INDEX_def)
next
  assume pre: "0 \<le> B \<and> cls a \<noteq> AdapterAgent \<and> previous_score a \<noteq> None"
  let ?m0 = "Map.empty(PACMAN_INDEX \<mapsto> prod.swap (getPacmanPosition st))"
  obtain m' g' where
    run: "ghost_positions_loop B 0 (getGhostPositions st) ?m0 g = Inr (m', g')"
    and ghosts: "\<forall>i<length (getGhostPositions st). \<exists>y x. m' (0 + 1 + i) = Some (y, x)
                  \<and> snd (getGhostPositions st ! i) - B \<le> y
                  \<and> y \<le> snd (getGhostPositions st ! i) + B
                  \<and> fst (getGhostPositions st ! i) - B \<le> x
                  \<and> x \<le> fst (getGhostPositions st ! i) + B"
    using ghost_positions_loop_bounds [of B 0 "getGhostPositions st" ?m0 g] pre by blast
  obtain r where r: "calculate_reward a (getScore st) = Inr r"
    using pre by (cases "cls a") (auto simp add: calculate_reward_def)
  have "\<exists>y x. m' (i + 1) = Some (y, x)
                  \<and> snd (getGhostPositions st ! i) - B \<le> y
                  \<and> y \<le> snd (getGhostPositions st ! i) + B
                  \<and> fst (getGhostPositions st ! i) - B \<le> x
                  \<and> x \<le> fst (getGhostPositions st ! i) + B
                  \<and> (B = 0 \<longrightarrow> (y, x) = prod.swap (getGhostPositions st ! i))"
    if "i < length (getGhostPositions st)" for i
  proof -
    from ghosts that obtain y x where yx: "m' (i + 1) = Some (y, x)"
      "snd (getGhostPositions st ! i) - B \<le> y" "y \<le> snd (getGhostPositions st ! i) + B"
      "fst (getGhostPositions st ! i) - B \<le> x" "x \<le> fst (getGhostPositions st ! i) + B"
      by fastforce
    then have "B = 0 \<longrightarrow> (y, x) = prod.swap (getGhostPositions st ! i)"
      by (cases "getGhostPositions st ! i") auto
    with yx show ?thesis by blast
  qed
  then show "\<exists>msg a' g'. create_state_message B a st g = Inr (msg, a', g')
           \<and> (\<forall>i<length (getGhostPositions st). \<exists>y x.
                  agent_positions msg (i + 1) = Some (y, x)
                  \<and> snd (getGhostPositions st ! i) - B \<le> y
                  \<and> y \<le> snd (getGhostPositions st ! i) + B
                  \<and> fst (getGhostPositions st ! i) - B \<le> x
                  \<and> x \<le> fst (getGhostPositions st ! i) + B
                  \<and> (B = 0 \<longrightarrow> (y, x) = prod.swap (getGhostPositions st ! i)))"
    using run r by (simp add: create_state_message_def)
qed

text \<open>
  On the example board (hunted agent at (1, 1), hunter at (3, 1)) with noise bound 1 and
  a generator that always hands out 2: the noise is \<open>-1 + 2 mod 3 = 1\<close> on both axes, the
  hunter is encoded at (2, 4) and the hunted agent at (1, 1).
\<close>

theorem opponent_noise_bounded_witness:
  "(0::int) \<le> 1 \<and> cls hunted6 \<noteq> AdapterAgent \<and> previous_score hunted6 \<noteq> None
   \<and> length (getGhostPositions example_state) = 1
   \<and> (\<exists>msg a' g'. create_state_message 1 hunted6 example_state twos = Inr (msg, a', g')
         \<and> agent_positions msg PACMAN_INDEX = Some (1, 1)
         \<and> agent_positions msg 1 = Some (2, 4))"
  using opponent_noise_bounded [of 1 hunted6 example_state twos]
  by (simp add: create_state_message_def calculate_reward_def noise_error_def randrange_def
        rng_rest_def hunted6_def example_state_def twos_def PACMAN_INDEX_def)

text \<open>
  C8. The constructor of \<^verbatim>\<open>AdapterAgent\<close> raises exactly when the client is not an
  instance of \<^verbatim>\<open>ZMQMessengerBase\<close>, and the agent it returns otherwise has STOP as
  previous action and test mode off.
\<close>

theorem AdapterAgent_init_raises_iff:
  "((\<exists>e. AdapterAgent_init c aid cl = Inl e) \<longleftrightarrow> cl \<noteq> ZMQMessengerBase_instance)
   \<and> (\<forall>a. AdapterAgent_init c aid cl = Inr a \<longrightarrow> previous_action a = STOP \<and> \<not> test_mode a)"
  by (auto simp add: AdapterAgent_init_def)

theorem AdapterAgent_init_raises_iff_witness:
  "AdapterAgent_init AdapterAgent 0 Other_object = Inl ValueError
   \<and> (\<exists>a. AdapterAgent_init AdapterAgent 0 ZMQMessengerBase_instance = Inr a
          \<and> previous_action a = STOP \<and> \<not> test_mode a)"
  using AdapterAgent_init_raises_iff [of AdapterAgent 0 Other_object]
        AdapterAgent_init_raises_iff [of AdapterAgent 0 ZMQMessengerBase_instance]
  by (simp add: AdapterAgent_init_def)

text \<open>
  C9. When the state message can be built, \<^verbatim>\<open>update\<close> returns and leaves
  \<^verbatim>\<open>previous_action\<close> as it was, whereas \<^verbatim>\<open>getAction\<close>, when it returns, has set it to
  the action of the reply; both have set \<^verbatim>\<open>previous_score\<close> to the score of the state.
\<close>

theorem update_keeps_previous_action:
  assumes "create_state_message B a st g = Inr (msg, a1, g1)"
  shows "(\<exists>a'. update B peer a st g = Inr (a', g1)
            \<and> previous_action a' = previous_action a
            \<and> previous_score a' = Some (getScore st))
       \<and> (\<forall>d a' g'. getAction inherited B peer a st g = Inr (d, a', g') \<longrightarrow>
            previous_action a' = peer msg \<and> previous_score a' = Some (getScore st))"
  using assms create_state_message_bookkeeping(1) [OF assms]
  by (auto simp add: update_def getAction_def communicate_def Let_def split: sum.splits)

theorem update_keeps_previous_action_witness:
  "\<exists>msg a1 g1. create_state_message 0 hunted6 example_state zeros = Inr (msg, a1, g1)
     \<and> (\<exists>a'. update 0 (\<lambda>m. NORTH) hunted6 example_state zeros = Inr (a', g1)
            \<and> previous_action a' = STOP \<and> previous_score a' = Some 10)
     \<and> (\<exists>a' g'. getAction None 0 (\<lambda>m. NORTH) hunted6 example_state zeros
                   = Inr (NORTH, a', g')
            \<and> previous_action a' = NORTH \<and> previous_score a' = Some 10)"
proof -
  obtain msg a1 g1 where
    built: "create_state_message 0 hunted6 example_state zeros = Inr (msg, a1, g1)"
    by (simp add: create_state_message_def calculate_reward_def noise_error_def
          randrange_def hunted6_def example_state_def zeros_def)
  have legal: "getLegalActions example_state (agent_id hunted6) = [NORTH]"
    by (simp add: example_state_def)
  have stop: "previous_action hunted6 = STOP" and score: "getScore example_state = 10"
    by (simp_all add: hunted6_def example_state_def)
  obtain a' where
    got: "getAction None 0 (\<lambda>m. NORTH) hunted6 example_state zeros = Inr (NORTH, a', g1)"
    using built create_state_message_bookkeeping(1) [OF built] legal
    by (simp add: getAction_def communicate_def Let_def)
  from update_keeps_previous_action [OF built, of "\<lambda>m. NORTH" None] got stop score built
  show ?thesis by auto
qed

section \<open>Properties of the controller agents\<close>

subsection \<open>Helper facts\<close>

lemmas choose_action_defs =
  BehaviorLearningPacmanAgent_choose_action_def BehaviorLearningGhostAgent_choose_action_def
  la_enable_test_mode_def la_enable_learn_mode_def random_choice_def Let_def

text \<open>
  What \<^verbatim>\<open>choose_action\<close> of the two learning agents returns in test mode and in learn
  mode, once the behavior chosen by \<open>act\<close> is known and is one the agent counts.
\<close>

lemma learning_choose_action_test:
  assumes "act ((learning ag)\<lparr>exploration_rate := 0\<rparr>) state = (b, core)"
      and "behavior_count ag b = Some n"
  shows "BehaviorLearningPacmanAgent_choose_action learn act run u ag state action rew legal True
         = Inr (if run b state legal \<in> set legal then run b state legal
                else if legal = [] then STOP else legal ! (u mod length legal),
                ag\<lparr>la_test_mode := True, learning := core, previous_behavior := b,
                   behavior_count := (behavior_count ag)(b \<mapsto> n + 1)\<rparr>)"
    and "BehaviorLearningGhostAgent_choose_action learn act run u ag state action rew legal True
         = Inr (if run b state legal \<in> set legal then run b state legal
                else if legal = [] then STOP else legal ! (u mod length legal),
                ag\<lparr>la_test_mode := True, learning := core, previous_behavior := b,
                   behavior_count := (behavior_count ag)(b \<mapsto> n + 1)\<rparr>)"
  using assms by (simp_all add: choose_action_defs)

lemma learning_choose_action_learn:
  assumes "K ag + of_int (iteration state) \<noteq> 0"
      and "act (learn ((learning ag)\<lparr>exploration_rate := la_exploration_rate ag,
                     learning_rate := K ag / (K ag + of_int (iteration state))\<rparr>)
                  state (previous_behavior ag) rew) state = (b, core)"
      and "behavior_count ag b = Some n"
  shows "BehaviorLearningPacmanAgent_choose_action learn act run u ag state action rew legal False
         = Inr (if run b state legal \<in> set legal then run b state legal
                else if legal = [] then STOP else legal ! (u mod length legal),
                ag\<lparr>la_test_mode := False, learning := core, previous_behavior := b,
                   behavior_count := (behavior_count ag)(b \<mapsto> n + 1)\<rparr>)"
    and "BehaviorLearningGhostAgent_choose_action learn act run u ag state action rew legal False
         = Inr (if run b state legal \<in> set legal then run b state legal
                else if legal = [] then STOP else legal ! (u mod length legal),
                ag\<lparr>la_test_mode := False, learning := core, previous_behavior := b,
                   behavior_count := (behavior_count ag)(b \<mapsto> n + 1)\<rparr>)"
  using assms by (simp_all add: choose_action_defs)

lemma three_tier:
  "(if x \<in> set legal then x else if legal = [] then STOP else legal ! (u mod length legal)) = d
   \<Longrightarrow> (if x \<in> set legal then d = x else if legal = [] then d = STOP else d \<in> set legal)"
  by auto

lemma learner_counts:
  "behavior_count pacman_learner SeekBehavior = Some 0"
  "behavior_count ghost_learner SeekBehavior = Some 0"
  by (simp_all add: pacman_learner_def ghost_learner_def BehaviorLearningPacmanAgent_init_def
        BehaviorLearningGhostAgent_init_def reset_behavior_count_def)

subsection \<open>Claims\<close>

text \<open>
  C3. In the eater agent and in the two learning agents alike, \<^verbatim>\<open>choose_action\<close>
  returns the action \<open>x\<close> suggested by the behavior if \<open>x\<close> is among the legal actions,
  STOP if there are no legal actions, and otherwise one of the legal actions. For the
  learning agents this is for a call that reaches the dispatch: \<open>act\<close> returns a behavior
  the agent counts, and in learn mode \<open>K + iteration\<close> is not zero.
\<close>

theorem behavior_dispatch:
  assumes counted: "\<And>c. behavior_count ag (fst (act c state)) \<noteq> None"
      and divisor: "test \<or> K ag + of_int (iteration state) \<noteq> 0"
  shows "(\<exists>d. EaterPacmanAgent_choose_action eat u state action rew legal test = Inr d
            \<and> (if eat state legal \<in> set legal then d = eat state legal
                else if legal = [] then d = STOP else d \<in> set legal))
       \<and> (\<exists>d ag'. BehaviorLearningPacmanAgent_choose_action learn act run u ag state action rew
                     legal test = Inr (d, ag')
            \<and> (if run (previous_behavior ag') state legal \<in> set legal
                then d = run (previous_behavior ag') state legal
                else if legal = [] then d = STOP else d \<in> set legal))
       \<and> (\<exists>d ag'. BehaviorLearningGhostAgent_choose_action learn act run u ag state action rew
                     legal test = Inr (d, ag')
            \<and> (if run (previous_behavior ag') state legal \<in> set legal
                then d = run (previous_behavior ag') state legal
                else if legal = [] then d = STOP else d \<in> set legal))"
proof (intro conjI)
  show "\<exists>d. EaterPacmanAgent_choose_action eat u state action rew legal test = Inr d
            \<and> (if eat state legal \<in> set legal then d = eat state legal
                else if legal = [] then d = STOP else d \<in> set legal)"
    by (simp add: EaterPacmanAgent_choose_action_def random_choice_def Let_def)
next
  define c where
    "c = (if test then (learning ag)\<lparr>exploration_rate := 0\<rparr>
          else learn ((learning ag)\<lparr>exploration_rate := la_exploration_rate ag,
                        learning_rate := K ag / (K ag + of_int (iteration state))\<rparr>)
                 state (previous_behavior ag) rew)"
  obtain b core where act: "act c state = (b, core)"
    by (cases "act c state")
  obtain n where n: "behavior_count ag b = Some n"
    using counted [of c] act by auto
  define d where
    "d = (if run b state legal \<in> set legal then run b state legal
          else if legal = [] then STOP else legal ! (u mod length legal))"
  define ag' where
    "ag' = ag\<lparr>la_test_mode := test, learning := core, previous_behavior := b,
               behavior_count := (behavior_count ag)(b \<mapsto> n + 1)\<rparr>"
  have tier: "if run (previous_behavior ag') state legal \<in> set legal
              then d = run (previous_behavior ag') state legal
              else if legal = [] then d = STOP else d \<in> set legal"
    using three_tier [of "run b state legal" legal u d] by (simp add: d_def ag'_def)
  have both:
    "BehaviorLearningPacmanAgent_choose_action learn act run u ag state action rew
          legal test = Inr (d, ag')
     \<and> BehaviorLearningGhostAgent_choose_action learn act run u ag state action rew
          legal test = Inr (d, ag')"
  proof (cases test)
    case True
    with act have "act ((learning ag)\<lparr>exploration_rate := 0\<rparr>) state = (b, core)"
      by (simp add: c_def)
    from learning_choose_action_test [of act ag state b core n, OF this n] True
    show ?thesis by (simp add: d_def ag'_def)
  next
    case False
    with divisor have nz: "K ag + of_int (iteration state) \<noteq> 0" by simp
    from act False have
      "act (learn ((learning ag)\<lparr>exploration_rate := la_exploration_rate ag,
                     learning_rate := K ag / (K ag + of_int (iteration state))\<rparr>)
                  state (previous_behavior ag) rew) state = (b, core)"
      by (simp add: c_def)
    from learning_choose_action_learn [of ag state act learn rew b core n, OF nz this n] False
    show ?thesis by (simp add: d_def ag'_def)
  qed
  from both tier show
    "\<exists>d ag'. BehaviorLearningPacmanAgent_choose_action learn act run u ag state action rew
                     legal test = Inr (d, ag')
            \<and> (if run (previous_behavior ag') state legal \<in> set legal
                then d = run (previous_behavior ag') state legal
                else if legal = [] then d = STOP else d \<in> set legal)"
    and
    "\<exists>d ag'. BehaviorLearningGhostAgent_choose_action learn act run u ag state action rew
                     legal test = Inr (d, ag')
            \<and> (if run (previous_behavior ag') state legal \<in> set legal
                then d = run (previous_behavior ag') state legal
                else if legal = [] then d = STOP else d \<in> set legal)"
    by blast+
qed

text \<open>
  Legal actions NORTH and STOP and a behavior suggesting EAST: the three agents return a
  legal action, here STOP as the sample 1 picks the second one.
\<close>

theorem behavior_dispatch_witness:
  "(\<forall>c. behavior_count ghost_learner (fst (act_seek c state9)) = Some 0)
   \<and> K ghost_learner + of_int (iteration state9) = 10
   \<and> EaterPacmanAgent_choose_action (suggest_east EatBehavior) 1 state9 STOP 4
        [NORTH, STOP] False = Inr STOP
   \<and> (\<exists>ag'. BehaviorLearningPacmanAgent_choose_action learn_nothing act_seek suggest_east 1
               ghost_learner state9 STOP 4 [NORTH, STOP] False = Inr (STOP, ag'))
   \<and> (\<exists>ag'. BehaviorLearningGhostAgent_choose_action learn_nothing act_seek suggest_east 1
               ghost_learner state9 STOP 4 [NORTH, STOP] False = Inr (STOP, ag'))"
proof -
  have counted: "behavior_count ghost_learner (fst (act_seek c state9)) \<noteq> None" for c
    by (simp add: act_seek_def learner_counts)
  have divisor: "False \<or> K ghost_learner + of_int (iteration state9) \<noteq> 0"
    by (simp add: ghost_learner_def BehaviorLearningGhostAgent_init_def
          reset_behavior_count_def state9_def)
  from behavior_dispatch [of ghost_learner act_seek state9 False, OF counted divisor,
         of "suggest_east EatBehavior" 1 STOP 4 "[NORTH, STOP]" learn_nothing suggest_east]
  have "(\<exists>d. EaterPacmanAgent_choose_action (suggest_east EatBehavior) 1 state9 STOP 4
                [NORTH, STOP] False = Inr d \<and> d \<in> {NORTH, STOP})
        \<and> (\<exists>d ag'. BehaviorLearningPacmanAgent_choose_action learn_nothing act_seek
                suggest_east 1 ghost_learner state9 STOP 4 [NORTH, STOP] False = Inr (d, ag')
              \<and> d \<in> {NORTH, STOP})
        \<and> (\<exists>d ag'. BehaviorLearningGhostAgent_choose_action learn_nothing act_seek
                suggest_east 1 ghost_learner state9 STOP 4 [NORTH, STOP] False = Inr (d, ag')
              \<and> d \<in> {NORTH, STOP})"
    by (simp add: suggest_east_def)
  moreover have "EaterPacmanAgent_choose_action (suggest_east EatBehavior) 1 state9 STOP 4
        [NORTH, STOP] False = Inr STOP"
    by (simp add: EaterPacmanAgent_choose_action_def suggest_east_def random_choice_def)
  moreover have
    "\<exists>ag'. BehaviorLearningPacmanAgent_choose_action learn_nothing act_seek suggest_east 1
               ghost_learner state9 STOP 4 [NORTH, STOP] False = Inr (STOP, ag')"
    "\<exists>ag'. BehaviorLearningGhostAgent_choose_action learn_nothing act_seek suggest_east 1
               ghost_learner state9 STOP 4 [NORTH, STOP] False = Inr (STOP, ag')"
    using divisor learner_counts(2)
    by (simp_all add: choose_action_defs act_seek_def suggest_east_def learn_nothing_def)
  moreover have "behavior_count ghost_learner (fst (act_seek c state9)) = Some 0" for c
    by (simp add: act_seek_def learner_counts)
  moreover have "K ghost_learner + of_int (iteration state9) = 10"
    by (simp add: ghost_learner_def BehaviorLearningGhostAgent_init_def
          reset_behavior_count_def state9_def)
  ultimately show ?thesis by blast
qed

text \<open>
  C6. A call of \<^verbatim>\<open>choose_action\<close> of a learning agent with \<open>test\<close> true never calls
  \<open>learn\<close>: \<open>act\<close> is consulted on the agent's learning object with its exploration rate
  set to 0 and nothing else changed, and the learning object the agent is left with is
  the one \<open>act\<close> leaves. So the outcome is the same for every \<open>learn\<close>, and the weights
  are unchanged by the call whenever \<open>act\<close> itself does not change them.
\<close>

theorem test_mode_skips_learn:
  assumes "act ((learning ag)\<lparr>exploration_rate := 0\<rparr>) state = (b, core)"
      and "behavior_count ag b = Some n"
  shows "\<exists>d ag'.
           BehaviorLearningPacmanAgent_choose_action learn act run u ag state action rew
             legal True = Inr (d, ag')
         \<and> BehaviorLearningGhostAgent_choose_action learn act run u ag state action rew
             legal True = Inr (d, ag')
         \<and> BehaviorLearningPacmanAgent_choose_action learn' act run u ag state action rew
             legal True = Inr (d, ag')
         \<and> BehaviorLearningGhostAgent_choose_action learn' act run u ag state action rew
             legal True = Inr (d, ag')
         \<and> learning ag' = snd (act ((learning ag)\<lparr>exploration_rate := 0\<rparr>) state)
         \<and> exploration_rate ((learning ag)\<lparr>exploration_rate := 0\<rparr>) = 0
         \<and> weights ((learning ag)\<lparr>exploration_rate := 0\<rparr>) = weights (learning ag)
         \<and> la_test_mode ag'
         \<and> (weights core = weights ((learning ag)\<lparr>exploration_rate := 0\<rparr>)
              \<longrightarrow> weights (learning ag') = weights (learning ag))"
  using learning_choose_action_test [of act ag state b core n, OF assms, of learn run u action rew legal]
        learning_choose_action_test [of act ag state b core n, OF assms, of learn' run u action rew legal]
        assms(1)
  by simp

text \<open>
  The hunter-role learner as constructed, with an \<open>act\<close> that leaves the learning object
  as it is: after the call in test mode the exploration rate is 0 and the weights and the
  learning rate are those of the constructor.
\<close>

theorem test_mode_skips_learn_witness:
  "act_seek ((learning ghost_learner)\<lparr>exploration_rate := 0\<rparr>) state9
     = (SeekBehavior, (learning ghost_learner)\<lparr>exploration_rate := 0\<rparr>)
   \<and> behavior_count ghost_learner SeekBehavior = Some 0
   \<and> (\<exists>d ag'. BehaviorLearningGhostAgent_choose_action learn_nothing act_seek suggest_east 0
                 ghost_learner state9 STOP 4 [NORTH, STOP] True = Inr (d, ag')
          \<and> learning ag' = \<lparr>learning_rate = 1 / 10, discount_factor = 9 / 10,
                             exploration_rate = 0, weights = ()\<rparr>)"
proof -
  have a: "act_seek ((learning ghost_learner)\<lparr>exploration_rate := 0\<rparr>) state9
             = (SeekBehavior, (learning ghost_learner)\<lparr>exploration_rate := 0\<rparr>)"
    by (simp add: act_seek_def)
  have core: "(learning ghost_learner)\<lparr>exploration_rate := 0\<rparr>
                = \<lparr>learning_rate = 1 / 10, discount_factor = 9 / 10,
                             exploration_rate = 0, weights = ()\<rparr>"
    by (simp add: ghost_learner_def BehaviorLearningGhostAgent_init_def
          reset_behavior_count_def)
  from test_mode_skips_learn [of act_seek ghost_learner state9 SeekBehavior
         "(learning ghost_learner)\<lparr>exploration_rate := 0\<rparr>" 0, OF a learner_counts(2),
         of learn_nothing suggest_east 0 STOP 4 "[NORTH, STOP]" learn_nothing]
  obtain d ag' where
    "BehaviorLearningGhostAgent_choose_action learn_nothing act_seek suggest_east 0
       ghost_learner state9 STOP 4 [NORTH, STOP] True = Inr (d, ag')"
    "learning ag' = snd (act_seek ((learning ghost_learner)\<lparr>exploration_rate := 0\<rparr>) state9)"
    by blast
  with a core learner_counts(2) show ?thesis by simp
qed

text \<open>
  C7. A call of \<^verbatim>\<open>choose_action\<close> of a learning agent with \<open>test\<close> false, on an agent
  with \<open>K = 1\<close> (the value both constructors give) and a state at iteration \<open>n \<ge> 0\<close>, calls
  \<open>learn\<close> on the learning object with its learning rate set to \<open>1 / (1 + n)\<close>, then
  consults \<open>act\<close> on what \<open>learn\<close> leaves.
\<close>

theorem learning_rate_schedule:
  assumes "K ag = 1" and "0 \<le> iteration state"
      and "act (learn ((learning ag)\<lparr>exploration_rate := la_exploration_rate ag,
                     learning_rate := 1 / (1 + of_int (iteration state))\<rparr>)
                  state (previous_behavior ag) rew) state = (b, core)"
      and "behavior_count ag b = Some n"
  shows "K (BehaviorLearningPacmanAgent_init w0 aid ally_ids enemy_ids) = 1
       \<and> K (BehaviorLearningGhostAgent_init w0 aid ally_ids enemy_ids) = 1
       \<and> (\<exists>d ag'.
           BehaviorLearningPacmanAgent_choose_action learn act run u ag state action rew
             legal False = Inr (d, ag')
         \<and> BehaviorLearningGhostAgent_choose_action learn act run u ag state action rew
             legal False = Inr (d, ag')
         \<and> learning ag' =
             snd (act (learn ((learning ag)\<lparr>exploration_rate := la_exploration_rate ag,
                          learning_rate := 1 / (1 + of_int (iteration state))\<rparr>)
                       state (previous_behavior ag) rew) state)
         \<and> K ag' = 1)"
proof -
  have nz: "K ag + of_int (iteration state) \<noteq> 0"
    using assms(1,2) by simp
  have run: "act (learn ((learning ag)\<lparr>exploration_rate := la_exploration_rate ag,
                     learning_rate := K ag / (K ag + of_int (iteration state))\<rparr>)
                  state (previous_behavior ag) rew) state = (b, core)"
    using assms(1,3) by simp
  have "K (BehaviorLearningPacmanAgent_init w0 aid ally_ids enemy_ids) = 1"
    and "K (BehaviorLearningGhostAgent_init w0 aid ally_ids enemy_ids) = 1"
    by (simp_all add: BehaviorLearningPacmanAgent_init_def BehaviorLearningGhostAgent_init_def
          reset_behavior_count_def)
  then show ?thesis
    using learning_choose_action_learn [of ag state act learn rew b core n,
            OF nz run assms(4), of run u action legal] assms(1,3)
    by simp
qed

text \<open>
  The hunted-role learner as constructed, at iteration 9, with a \<open>learn\<close> and an \<open>act\<close>
  that leave the learning object as it is: the learning rate it is left with is 1/10.
\<close>

theorem learning_rate_schedule_witness:
  "K pacman_learner = 1 \<and> 0 \<le> iteration state9
   \<and> behavior_count pacman_learner SeekBehavior = Some 0
   \<and> (\<exists>d ag'. BehaviorLearningPacmanAgent_choose_action learn_nothing act_seek suggest_east 0
                 pacman_learner state9 STOP 4 [NORTH, STOP] False = Inr (d, ag')
          \<and> learning_rate (learning ag') = 1 / 10)"
proof -
  have k: "K pacman_learner = 1" and it: "0 \<le> iteration state9"
    by (simp_all add: pacman_learner_def BehaviorLearningPacmanAgent_init_def
          reset_behavior_count_def state9_def)
  let ?c = "(learning pacman_learner)\<lparr>exploration_rate := la_exploration_rate pacman_learner,
              learning_rate := 1 / (1 + of_int (iteration state9))\<rparr>"
  have a: "act_seek (learn_nothing ?c state9 (previous_behavior pacman_learner) 4) state9
             = (SeekBehavior, ?c)"
    by (simp add: act_seek_def learn_nothing_def)
  have rate: "learning_rate ?c = 1 / 10"
    by (simp add: state9_def)
  from learning_rate_schedule [of pacman_learner state9 act_seek learn_nothing 4
         SeekBehavior ?c 0, OF k it a learner_counts(1), of "()" 0 "[]" "[]" suggest_east 0
         STOP "[NORTH, STOP]"]
  obtain d ag' where
    "BehaviorLearningPacmanAgent_choose_action learn_nothing act_seek suggest_east 0
       pacman_learner state9 STOP 4 [NORTH, STOP] False = Inr (d, ag')"
    "learning ag' = snd (act_seek (learn_nothing ?c state9 (previous_behavior pacman_learner) 4)
                           state9)"
    by blast
  with a rate k it learner_counts(1) show ?thesis by simp
qed

text \<open>
  C10. With no legal action, \<^verbatim>\<open>choose_action\<close> of \<^verbatim>\<open>RandomPacmanAgent\<close> and of
  \<^verbatim>\<open>RandomGhostAgent\<close> returns \<^verbatim>\<open>None\<close>, not a direction.
\<close>

theorem random_agents_empty_legal_actions:
  "RandomPacmanAgent_choose_action u state action rew [] explore = Inr None
   \<and> RandomGhostAgent_choose_action u state action rew [] explore = Inr None"
  by (simp add: RandomPacmanAgent_choose_action_def RandomGhostAgent_choose_action_def)

end
